theory Spec2Isabelle
  imports Main
begin

section \<open>The configuration records of sample_indexer_datasource_skillset.py\<close>

text \<open>
  The script assembles request payloads from SDK model classes and hands them to SDK
  client methods. Each model class the script instantiates is a record holding the
  keyword arguments the script passes; a keyword the script may leave out is an option.
  Field names follow the keyword names; a prefix is added where two classes share a
  keyword (\<open>name\<close>, \<open>context\<close>, \<open>inputs\<close>, ...).
\<close>

record input_field_mapping_entry =
  in_name :: string
  in_source :: string

record output_field_mapping_entry =
  out_name :: string
  out_target_name :: string

record split_skill =
  text_split_mode :: string
  split_context :: string
  maximum_page_length :: int
  page_overlap_length :: int
  split_inputs :: "input_field_mapping_entry list"
  split_outputs :: "output_field_mapping_entry list"

record azure_openai_embedding_skill =
  emb_context :: string
  resource_uri :: string
  api_key :: string
  deployment_id :: string
  model_name :: string
  dimensions :: int
  emb_inputs :: "input_field_mapping_entry list"
  emb_outputs :: "output_field_mapping_entry list"

datatype skill =
  SplitSkill split_skill
| AzureOpenAIEmbeddingSkill azure_openai_embedding_skill

record index_projection_selector =
  sel_target_index_name :: string
  parent_key_field_name :: string
  source_context :: string
  mappings :: "input_field_mapping_entry list"

text \<open>The two members of the SDK's IndexProjectionMode enumeration.\<close>

datatype index_projection_mode =
  SKIP_INDEXING_PARENT_DOCUMENTS
| INCLUDE_INDEXING_PARENT_DOCUMENTS

record index_projections_parameters =
  projection_mode :: index_projection_mode

record index_projections =
  selectors :: "index_projection_selector list"
  proj_parameters :: index_projections_parameters

record skillset =
  skillset_name :: string
  skills :: "skill list"
  skillset_index_projections :: index_projections

record data_container =
  container_name :: string

record data_source_connection =
  data_source_name :: string
  data_source_type :: string
  connection_string :: string
  container :: data_container

record field_mapping =
  source_field_name :: string
  target_field_name :: string

record search_indexer =
  indexer_name :: string
  indexer_data_source_name :: string
  indexer_target_index_name :: string
  indexer_skillset_name :: string
  field_mappings :: "field_mapping list"

datatype search_field_data_type =
  String
| Single
| Collection search_field_data_type

record searchable_field_args =
  sf_name :: string
  sf_key :: "bool option"
  sf_analyzer_name :: "string option"
  sf_sortable :: "bool option"

record simple_field_args =
  smf_name :: string
  smf_type :: search_field_data_type
  smf_filterable :: "bool option"

record search_field_args =
  fld_name :: string
  fld_type :: search_field_data_type
  vector_search_dimensions :: int
  vector_search_profile_name :: string
  stored :: bool
  hidden :: bool

text \<open>
  A field definition is one of the three SDK constructors the script calls, with the
  keyword arguments of the call.
\<close>

datatype field_def =
  SearchableField searchable_field_args
| SimpleField simple_field_args
| SearchField search_field_args

text \<open>
  Python is dynamically typed: the value bound to \<open>fields\<close> may be a list of field
  definitions or a tuple of further values. Both shapes are values of this type.
\<close>

datatype fields_value =
  Py_list "field_def list"
| Py_tuple "fields_value list"

record cors_options =
  allowed_origins :: "string list"
  max_age_in_seconds :: int

record search_index =
  index_name :: string
  index_fields :: fields_value
  index_cors_options :: cors_options

section \<open>Module initialisation\<close>

text \<open>
  Exceptions are values. \<open>KeyError k\<close> is what \<open>os.environ[k]\<close> raises for an unset
  variable; \<open>HttpResponseError m\<close> stands for any failure a client method raises.
\<close>

datatype error =
  KeyError string
| HttpResponseError string

text \<open>
  The process environment, as \<open>os.environ\<close> holds it once \<open>load_dotenv()\<close> has
  returned.
\<close>

type_synonym environ = "string \<rightharpoonup> string"

definition environ_get :: "environ \<Rightarrow> string \<Rightarrow> error + string" where
  "environ_get env k = (case env k of None \<Rightarrow> Inl (KeyError k) | Some v \<Rightarrow> Inr v)"

text \<open>The module-level names bound at lines 88 to 95.\<close>

record globals =
  service_endpoint :: string
  key :: string
  g_connection_string :: string
  AZURE_OPENAI_EMBEDDING_ENDPOINT :: string
  AZURE_OPENAI_EMBEDDING_DEPLOYMENT :: string
  AZURE_OPENAI_EMBEDDING_MODEL :: string
  AZURE_OPENAI_EMBEDDING_CREDENTIAL :: string

definition raising :: "error + 'a \<Rightarrow> ('a \<Rightarrow> error + 'b) \<Rightarrow> error + 'b" where
  "raising r f = (case r of Inl e \<Rightarrow> Inl e | Inr v \<Rightarrow> f v)"

definition module_init :: "environ \<Rightarrow> error + globals" where
  "module_init env =
     raising (environ_get env ''AZURE_SEARCH_SERVICE_ENDPOINT'') (\<lambda>v1.
     raising (environ_get env ''AZURE_SEARCH_API_KEY'') (\<lambda>v2.
     raising (environ_get env ''AZURE_STORAGE_CONNECTION_STRING'') (\<lambda>v3.
     raising (environ_get env ''AZURE_OPENAI_ENDPOINT'') (\<lambda>v4.
     raising (environ_get env ''AZURE_OPENAI_EMBEDDING_DEPLOYMENT'') (\<lambda>v5.
     raising (environ_get env ''AZURE_OPENAI_EMBEDDING_MODEL'') (\<lambda>v6.
     raising (environ_get env ''AZURE_OPENAI_EMBEDDING_CREDENTIAL'') (\<lambda>v7.
       Inr \<lparr> service_endpoint = v1,
             key = v2,
             g_connection_string = v3,
             AZURE_OPENAI_EMBEDDING_ENDPOINT = v4,
             AZURE_OPENAI_EMBEDDING_DEPLOYMENT = v5,
             AZURE_OPENAI_EMBEDDING_MODEL = v6,
             AZURE_OPENAI_EMBEDDING_CREDENTIAL = v7 \<rparr>)))))))"

text \<open>The variables read at module level, in reading order.\<close>

definition required_variables :: "string list" where
  "required_variables =
     [''AZURE_SEARCH_SERVICE_ENDPOINT'',
      ''AZURE_SEARCH_API_KEY'',
      ''AZURE_STORAGE_CONNECTION_STRING'',
      ''AZURE_OPENAI_ENDPOINT'',
      ''AZURE_OPENAI_EMBEDDING_DEPLOYMENT'',
      ''AZURE_OPENAI_EMBEDDING_MODEL'',
      ''AZURE_OPENAI_EMBEDDING_CREDENTIAL'']"

section \<open>The payloads\<close>

text \<open>The \<open>SearchIndex\<close> object built in \<open>_create_index\<close> (lines 98 to 117).\<close>

definition index_field_list :: "field_def list" where
  "index_field_list =
     [SearchableField \<lparr> sf_name = ''chunk_id'', sf_key = Some True,
                        sf_analyzer_name = Some ''keyword'', sf_sortable = Some True \<rparr>,
      SimpleField \<lparr> smf_name = ''parent_id'', smf_type = String, smf_filterable = Some True \<rparr>,
      SearchableField \<lparr> sf_name = ''title'', sf_key = None,
                        sf_analyzer_name = None, sf_sortable = None \<rparr>,
      SearchableField \<lparr> sf_name = ''chunk'', sf_key = None,
                        sf_analyzer_name = None, sf_sortable = None \<rparr>,
      SearchField \<lparr> fld_name = ''text_vector'', fld_type = Collection Single,
                    vector_search_dimensions = 1536, vector_search_profile_name = ''vp'',
                    stored = True, hidden = False \<rparr>]"

text \<open>
  Line 113 closes the list with \<open>],\<close>: the trailing comma makes the right-hand side of
  \<open>fields=\<close> a tuple whose single member is the list.
\<close>

definition index_payload :: search_index where
  "index_payload =
     (let name = ''hotel-index'';
          fields = Py_tuple [Py_list index_field_list];
          cors = \<lparr> allowed_origins = [''*''], max_age_in_seconds = 60 \<rparr>
      in \<lparr> index_name = name, index_fields = fields, index_cors_options = cors \<rparr>)"

text \<open>The \<open>SearchIndexerDataSourceConnection\<close> built in \<open>_create_datasource\<close>.\<close>

definition data_source_payload :: "globals \<Rightarrow> data_source_connection" where
  "data_source_payload g =
     (let cont = \<lparr> container_name = ''documentation'' \<rparr>
      in \<lparr> data_source_name = ''openairagaudio'',
           data_source_type = ''azureblob'',
           connection_string = g_connection_string g,
           container = cont \<rparr>)"

text \<open>The \<open>SearchIndexerSkillset\<close> built in \<open>_create_skillset\<close> (lines 137 to 173).\<close>

definition skillset_payload :: "globals \<Rightarrow> skillset" where
  "skillset_payload g =
     \<lparr> skillset_name = ''testtskillset'',
       skills =
         [SplitSkill
            \<lparr> text_split_mode = ''pages'',
              split_context = ''/document'',
              maximum_page_length = 2000,
              page_overlap_length = 500,
              split_inputs = [\<lparr> in_name = ''text'', in_source = ''/document/content'' \<rparr>],
              split_outputs = [\<lparr> out_name = ''textItems'', out_target_name = ''pages'' \<rparr>] \<rparr>,
          AzureOpenAIEmbeddingSkill
            \<lparr> emb_context = ''/document/pages/*'',
              resource_uri = AZURE_OPENAI_EMBEDDING_ENDPOINT g,
              api_key = AZURE_OPENAI_EMBEDDING_CREDENTIAL g,
              deployment_id = AZURE_OPENAI_EMBEDDING_ENDPOINT g,
              model_name = AZURE_OPENAI_EMBEDDING_MODEL g,
              dimensions = 1536,
              emb_inputs = [\<lparr> in_name = ''text'', in_source = ''/document/pages/*'' \<rparr>],
              emb_outputs =
                [\<lparr> out_name = ''embedding'', out_target_name = ''text_vector'' \<rparr>] \<rparr>],
       skillset_index_projections =
         \<lparr> selectors =
             [\<lparr> sel_target_index_name = ''gptkbindex'',
                parent_key_field_name = ''parent_id'',
                source_context = ''/document/pages/*'',
                mappings =
                  [\<lparr> in_name = ''chunk'', in_source = ''/document/pages/*'' \<rparr>,
                   \<lparr> in_name = ''text_vector'',
                     in_source = ''/document/pages/*/text_vector'' \<rparr>,
                   \<lparr> in_name = ''title'',
                     in_source = ''/document/metadata_storage_name'' \<rparr>] \<rparr>],
           proj_parameters =
             \<lparr> projection_mode = SKIP_INDEXING_PARENT_DOCUMENTS \<rparr> \<rparr> \<rparr>"

text \<open>
  The \<open>SearchIndexer\<close> built in \<open>sample_indexer_workflow\<close> (lines 193 to 200) from the
  names of the data source and the skillset the service returned.
\<close>

definition indexer_payload :: "string \<Rightarrow> string \<Rightarrow> search_indexer" where
  "indexer_payload ds_name skillset_nm =
     \<lparr> indexer_name = ''hotel-data-indexer'',
       indexer_data_source_name = ds_name,
       indexer_target_index_name = ''gptkbindex'',
       indexer_skillset_name = skillset_nm,
       field_mappings =
         [\<lparr> source_field_name = ''metadata_storage_name'', target_field_name = ''title'' \<rparr>] \<rparr>"

section \<open>Clients, remote calls and the console\<close>

text \<open>
  \<open>SearchIndexerClient(service_endpoint, AzureKeyCredential(key))\<close> and
  \<open>SearchIndexClient(service_endpoint, AzureKeyCredential(key))\<close>: a client is the
  endpoint and the key it was built from. Building a client or a model object sends
  nothing.
\<close>

record client =
  client_endpoint :: string
  client_credential :: string

definition new_client :: "globals \<Rightarrow> client" where
  "new_client g = \<lparr> client_endpoint = service_endpoint g, client_credential = key g \<rparr>"

text \<open>The client methods the script names, with their arguments.\<close>

datatype request =
  Create_index search_index
| Create_data_source_connection data_source_connection
| Create_skillset skillset
| Create_indexer search_indexer
| Get_indexer string
| Run_indexer string

datatype operation =
  CREATE_INDEX
| CREATE_DATA_SOURCE_CONNECTION
| CREATE_SKILLSET
| CREATE_INDEXER
| GET_INDEXER
| RUN_INDEXER

fun operation_of :: "request \<Rightarrow> operation" where
  "operation_of (Create_index _) = CREATE_INDEX"
| "operation_of (Create_data_source_connection _) = CREATE_DATA_SOURCE_CONNECTION"
| "operation_of (Create_skillset _) = CREATE_SKILLSET"
| "operation_of (Create_indexer _) = CREATE_INDEXER"
| "operation_of (Get_indexer _) = GET_INDEXER"
| "operation_of (Run_indexer _) = RUN_INDEXER"

datatype outcome = Returned | Raised error

text \<open>One entry of the log of remote calls: who called, what, and how it ended.\<close>

record remote_call =
  via :: client
  request :: request
  outcome :: outcome

datatype printed = Text string | Repr search_indexer

text \<open>
  The world the script runs in: the state of the remote service (opaque to the script),
  the remote calls issued so far, oldest first, and the lines printed so far.
\<close>

record 's world =
  remote :: 's
  calls :: "remote_call list"
  console :: "printed list"

definition fresh :: "'s \<Rightarrow> 's world" where
  "fresh s = \<lparr> remote = s, calls = [], console = [] \<rparr>"

text \<open>
  The SDK is a parameter of the model: each client method takes the client, its
  argument and the state of the service, and either raises or returns a descriptor,
  leaving the service in a new state.
\<close>

record 's sdk =
  create_index :: "client \<Rightarrow> search_index \<Rightarrow> 's \<Rightarrow> (error + search_index) \<times> 's"
  create_data_source_connection ::
    "client \<Rightarrow> data_source_connection \<Rightarrow> 's \<Rightarrow> (error + data_source_connection) \<times> 's"
  create_skillset :: "client \<Rightarrow> skillset \<Rightarrow> 's \<Rightarrow> (error + skillset) \<times> 's"
  create_indexer :: "client \<Rightarrow> search_indexer \<Rightarrow> 's \<Rightarrow> (error + search_indexer) \<times> 's"
  get_indexer :: "client \<Rightarrow> string \<Rightarrow> 's \<Rightarrow> (error + search_indexer) \<times> 's"
  run_indexer :: "client \<Rightarrow> string \<Rightarrow> 's \<Rightarrow> (error + unit) \<times> 's"

type_synonym ('s, 'a) action = "'s world \<Rightarrow> (error + 'a) \<times> 's world"

text \<open>A statement that raises ends the function: the rest is not run.\<close>

definition and_then :: "('s, 'a) action \<Rightarrow> ('a \<Rightarrow> ('s, 'b) action) \<Rightarrow> ('s, 'b) action" where
  "and_then m f w = (case m w of (Inl e, w') \<Rightarrow> (Inl e, w') | (Inr a, w') \<Rightarrow> f a w')"

definition invoke ::
  "client \<Rightarrow> request \<Rightarrow> ('s \<Rightarrow> (error + 'a) \<times> 's) \<Rightarrow> ('s, 'a) action" where
  "invoke c rq f w =
     (case f (remote w) of
        (r, s') \<Rightarrow>
          (r, w \<lparr> remote := s',
                  calls := calls w @
                    [\<lparr> via = c, request = rq,
                       outcome = (case r of Inl e \<Rightarrow> Raised e | Inr _ \<Rightarrow> Returned) \<rparr>] \<rparr>))"

definition py_print :: "printed \<Rightarrow> ('s, unit) action" where
  "py_print x w = (Inr (), w \<lparr> console := console w @ [x] \<rparr>)"

section \<open>The functions of the script\<close>

definition priv_create_index :: "'s sdk \<Rightarrow> globals \<Rightarrow> ('s, search_index) action" where
  "priv_create_index k g =
     (let index = index_payload;
          index_client = new_client g
      in invoke index_client (Create_index index) (create_index k index_client index))"

definition priv_create_datasource ::
  "'s sdk \<Rightarrow> globals \<Rightarrow> ('s, data_source_connection) action" where
  "priv_create_datasource k g =
     (let ds_client = new_client g;
          data_source_connection = data_source_payload g
      in invoke ds_client (Create_data_source_connection data_source_connection)
           (create_data_source_connection k ds_client data_source_connection))"

definition priv_create_skillset :: "'s sdk \<Rightarrow> globals \<Rightarrow> ('s, skillset) action" where
  "priv_create_skillset k g =
     (let cl = new_client g;
          sk = skillset_payload g
      in invoke cl (Create_skillset sk) (create_skillset k cl sk))"

definition sample_indexer_workflow :: "'s sdk \<Rightarrow> globals \<Rightarrow> ('s, unit) action" where
  "sample_indexer_workflow k g =
     and_then (priv_create_skillset k g) (\<lambda>created_skillset.
     and_then (py_print (Text ''Skillset is created'')) (\<lambda>_.
     and_then (priv_create_datasource k g) (\<lambda>created_data_source.
     and_then (py_print (Text ''Data source is created'')) (\<lambda>_.
       let indexer = indexer_payload (data_source_name created_data_source)
                       (skillset_name created_skillset);
           indexer_client = new_client g
       in
     and_then (invoke indexer_client (Create_indexer indexer)
                 (create_indexer k indexer_client indexer)) (\<lambda>_.
     and_then (invoke indexer_client (Get_indexer ''hotel-data-indexer'')
                 (get_indexer k indexer_client ''hotel-data-indexer'')) (\<lambda>result.
     and_then (py_print (Repr result)) (\<lambda>_.
       invoke indexer_client (Run_indexer (indexer_name result))
         (run_indexer k indexer_client (indexer_name result)))))))))"

text \<open>
  Running the file as a script: the module-level statements, then
  \<open>sample_indexer_workflow()\<close> under the \<open>__main__\<close> guard.
\<close>

definition script :: "environ \<Rightarrow> 's sdk \<Rightarrow> 's \<Rightarrow> (error + unit) \<times> 's world" where
  "script env k s =
     (case module_init env of
        Inl e \<Rightarrow> (Inl e, fresh s)
      | Inr g \<Rightarrow> sample_indexer_workflow k g (fresh s))"

text \<open>The remote operations of a run, oldest first.\<close>

definition operations :: "'s world \<Rightarrow> operation list" where
  "operations w = map (\<lambda>c. operation_of (request c)) (calls w)"

definition returned :: "remote_call \<Rightarrow> bool" where
  "returned c = (outcome c = Returned)"

text \<open>The order in which lines 181 to 210 name the client methods.\<close>

definition call_order :: "operation list" where
  "call_order =
     [CREATE_SKILLSET, CREATE_DATA_SOURCE_CONNECTION, CREATE_INDEXER, GET_INDEXER, RUN_INDEXER]"

section \<open>Vocabulary for the properties\<close>

text \<open>\<open>precedes a b xs\<close>: some occurrence of \<open>a\<close> in \<open>xs\<close> stands before some \<open>b\<close>.\<close>

fun precedes :: "'a \<Rightarrow> 'a \<Rightarrow> 'a list \<Rightarrow> bool" where
  "precedes a b [] = False"
| "precedes a b (x # xs) = ((x = a \<and> b \<in> set xs) \<or> precedes a b xs)"

text \<open>
  \<open>completed_before a i cs\<close>: among the first \<open>i\<close> calls of the log \<open>cs\<close>, one is the
  operation \<open>a\<close> and returned.
\<close>

definition completed_before :: "operation \<Rightarrow> nat \<Rightarrow> remote_call list \<Rightarrow> bool" where
  "completed_before a i cs =
     list_ex (\<lambda>c. operation_of (request c) = a \<and> returned c) (take i cs)"

fun embedding_skills :: "skill list \<Rightarrow> azure_openai_embedding_skill list" where
  "embedding_skills [] = []"
| "embedding_skills (SplitSkill _ # ss) = embedding_skills ss"
| "embedding_skills (AzureOpenAIEmbeddingSkill e # ss) = e # embedding_skills ss"

text \<open>The target index names a request declares.\<close>

fun declared_targets :: "request \<Rightarrow> string list" where
  "declared_targets (Create_indexer ix) = [indexer_target_index_name ix]"
| "declared_targets (Create_skillset sk) =
     map sel_target_index_name (selectors (skillset_index_projections sk))"
| "declared_targets _ = []"

text \<open>The indexers and the skillsets a log of remote calls asks the service to create.\<close>

definition sent_indexers :: "remote_call list \<Rightarrow> search_indexer list" where
  "sent_indexers cs =
     concat (map (\<lambda>c. case request c of Create_indexer ix \<Rightarrow> [ix] | _ \<Rightarrow> []) cs)"

definition sent_skillsets :: "remote_call list \<Rightarrow> skillset list" where
  "sent_skillsets cs =
     concat (map (\<lambda>c. case request c of Create_skillset sk \<Rightarrow> [sk] | _ \<Rightarrow> []) cs)"


section \<open>A sample service and a sample environment\<close>

text \<open>
  A service that accepts a given number of calls, echoing what it is sent, and rejects
  every call after them. Its state is the number of calls it will still accept.
\<close>

definition accept :: "'a \<Rightarrow> nat \<Rightarrow> (error + 'a) \<times> nat" where
  "accept v n =
     (if n = 0 then (Inl (HttpResponseError ''rejected''), 0) else (Inr v, n - 1))"

definition sample_sdk :: "nat sdk" where
  "sample_sdk =
     \<lparr> create_index = (\<lambda>c p. accept p),
       create_data_source_connection = (\<lambda>c p. accept p),
       create_skillset = (\<lambda>c p. accept p),
       create_indexer = (\<lambda>c p. accept p),
       get_indexer = (\<lambda>c n. accept (indexer_payload ''openairagaudio'' ''testtskillset''
                                       \<lparr> indexer_name := n \<rparr>)),
       run_indexer = (\<lambda>c n. accept ()) \<rparr>"

definition sample_environ :: environ where
  "sample_environ =
     map_of
       [(''AZURE_SEARCH_SERVICE_ENDPOINT'', ''https://search.example''),
        (''AZURE_SEARCH_API_KEY'', ''search-key''),
        (''AZURE_STORAGE_CONNECTION_STRING'', ''UseDevelopmentStorage=true''),
        (''AZURE_OPENAI_ENDPOINT'', ''https://openai.example''),
        (''AZURE_OPENAI_EMBEDDING_DEPLOYMENT'', ''embedding-deployment''),
        (''AZURE_OPENAI_EMBEDDING_MODEL'', ''text-embedding-3-small''),
        (''AZURE_OPENAI_EMBEDDING_CREDENTIAL'', ''openai-key'')]"

definition sample_globals :: globals where
  "sample_globals =
     \<lparr> service_endpoint = ''https://search.example'',
       key = ''search-key'',
       g_connection_string = ''UseDevelopmentStorage=true'',
       AZURE_OPENAI_EMBEDDING_ENDPOINT = ''https://openai.example'',
       AZURE_OPENAI_EMBEDDING_DEPLOYMENT = ''embedding-deployment'',
       AZURE_OPENAI_EMBEDDING_MODEL = ''text-embedding-3-small'',
       AZURE_OPENAI_EMBEDDING_CREDENTIAL = ''openai-key'' \<rparr>"







section \<open>Properties of every run\<close>

lemma precedes_iff:
  "precedes a b xs \<longleftrightarrow> (\<exists>i j. i < j \<and> j < length xs \<and> xs ! i = a \<and> xs ! j = b)"
proof (induction xs)
  case Nil
  then show ?case by simp
next
  case (Cons x xs)
  show ?case
  proof
    assume "precedes a b (x # xs)"
    then consider "x = a" "b \<in> set xs" | "precedes a b xs" by auto
    then show "\<exists>i j. i < j \<and> j < length (x # xs) \<and> (x # xs) ! i = a \<and> (x # xs) ! j = b"
    proof cases
      case 1
      then obtain n where "n < length xs" "xs ! n = b" by (auto simp: in_set_conv_nth)
      with 1 have "0 < Suc n \<and> Suc n < length (x # xs) \<and> (x # xs) ! 0 = a \<and> (x # xs) ! Suc n = b"
        by simp
      then show ?thesis by blast
    next
      case 2
      with Cons.IH obtain i j where "i < j" "j < length xs" "xs ! i = a" "xs ! j = b" by blast
      then have "Suc i < Suc j \<and> Suc j < length (x # xs) \<and> (x # xs) ! Suc i = a \<and> (x # xs) ! Suc j = b"
        by simp
      then show ?thesis by blast
    qed
  next
    assume "\<exists>i j. i < j \<and> j < length (x # xs) \<and> (x # xs) ! i = a \<and> (x # xs) ! j = b"
    then obtain i j where ij: "i < j" "j < length (x # xs)" "(x # xs) ! i = a" "(x # xs) ! j = b"
      by blast
    then obtain j' where j': "j = Suc j'" by (cases j) auto
    show "precedes a b (x # xs)"
    proof (cases i)
      case 0
      with ij j' have "x = a" "b \<in> set xs" by auto
      then show ?thesis by simp
    next
      case (Suc i')
      with ij j' have "i' < j' \<and> j' < length xs \<and> xs ! i' = a \<and> xs ! j' = b" by simp
      with Cons.IH have "precedes a b xs" by blast
      then show ?thesis by simp
    qed
  qed
qed

lemma init_sample: "module_init sample_environ = Inr sample_globals"
  by (simp add: module_init_def sample_environ_def sample_globals_def environ_get_def raising_def)

lemmas run_defs = sample_indexer_workflow_def priv_create_skillset_def priv_create_datasource_def
  and_then_def invoke_def py_print_def fresh_def Let_def

lemma workflow_shape:
  assumes "sample_indexer_workflow k g (fresh s) = (r, w)"
  shows "operations w = take (length (calls w)) call_order"
    and "calls w \<noteq> []"
    and "list_all returned (butlast (calls w))"
    and "outcome (last (calls w)) = (case r of Inl e \<Rightarrow> Raised e | Inr _ \<Rightarrow> Returned)"
    and "length (calls w) \<le> 5"
    and "r = Inr () \<longleftrightarrow> length (calls w) = 5 \<and> returned (last (calls w))"
  using assms
  by (auto simp: run_defs operations_def call_order_def returned_def split: prod.splits sum.splits)

lemma workflow_requests:
  assumes "sample_indexer_workflow k g (fresh s) = (r, w)"
  shows "\<exists>d n x. map request (calls w) =
           take (length (calls w))
             [Create_skillset (skillset_payload g),
              Create_data_source_connection (data_source_payload g),
              Create_indexer (indexer_payload d n),
              Get_indexer ''hotel-data-indexer'',
              Run_indexer x]"
  using assms
  by (auto simp: run_defs split: prod.splits sum.splits; blast)

lemma workflow_clients:
  assumes "sample_indexer_workflow k g (fresh s) = (r, w)"
  shows "list_all (\<lambda>c. via c = new_client g) (calls w)"
  using assms
  by (auto simp: run_defs split: prod.splits sum.splits)

lemma workflow_operations:
  assumes "sample_indexer_workflow k g (fresh s) = (r, w)"
  shows "operations w = [CREATE_SKILLSET] \<or>
         operations w = [CREATE_SKILLSET, CREATE_DATA_SOURCE_CONNECTION] \<or>
         operations w = [CREATE_SKILLSET, CREATE_DATA_SOURCE_CONNECTION, CREATE_INDEXER] \<or>
         operations w =
           [CREATE_SKILLSET, CREATE_DATA_SOURCE_CONNECTION, CREATE_INDEXER, GET_INDEXER] \<or>
         operations w = call_order"
  using assms
  by (auto simp: run_defs operations_def call_order_def split: prod.splits sum.splits)

lemma workflow_completed:
  assumes "sample_indexer_workflow k g (fresh s) = (Inr u, w)"
  shows "operations w = call_order" and "list_all returned (calls w)"
  using assms
  by (auto simp: run_defs operations_def call_order_def returned_def
      split: prod.splits sum.splits)

lemma module_init_unset:
  assumes "v \<in> set required_variables" and "env v = None"
  shows "\<exists>u. module_init env = Inl (KeyError u) \<and> u \<in> set required_variables \<and> env u = None"
  using assms
  by (auto simp: module_init_def required_variables_def raising_def environ_get_def
      split: option.splits)

lemma workflow_ignores_deployment:
  "sample_indexer_workflow k (g \<lparr> AZURE_OPENAI_EMBEDDING_DEPLOYMENT := v \<rparr>) =
   sample_indexer_workflow k g"
  by (simp add: sample_indexer_workflow_def priv_create_skillset_def priv_create_datasource_def
      skillset_payload_def data_source_payload_def new_client_def)

lemma module_init_deployment:
  assumes "env1 ''AZURE_OPENAI_EMBEDDING_DEPLOYMENT'' = Some a"
    and "env2 ''AZURE_OPENAI_EMBEDDING_DEPLOYMENT'' = Some b"
    and "\<forall>v. v \<noteq> ''AZURE_OPENAI_EMBEDDING_DEPLOYMENT'' \<longrightarrow> env1 v = env2 v"
  shows "module_init env2 =
           (case module_init env1 of
              Inl e \<Rightarrow> Inl e
            | Inr g \<Rightarrow> Inr (g \<lparr> AZURE_OPENAI_EMBEDDING_DEPLOYMENT := b \<rparr>))"
proof -
  have "env2 ''AZURE_SEARCH_SERVICE_ENDPOINT'' = env1 ''AZURE_SEARCH_SERVICE_ENDPOINT''"
    "env2 ''AZURE_SEARCH_API_KEY'' = env1 ''AZURE_SEARCH_API_KEY''"
    "env2 ''AZURE_STORAGE_CONNECTION_STRING'' = env1 ''AZURE_STORAGE_CONNECTION_STRING''"
    "env2 ''AZURE_OPENAI_ENDPOINT'' = env1 ''AZURE_OPENAI_ENDPOINT''"
    "env2 ''AZURE_OPENAI_EMBEDDING_MODEL'' = env1 ''AZURE_OPENAI_EMBEDDING_MODEL''"
    "env2 ''AZURE_OPENAI_EMBEDDING_CREDENTIAL'' = env1 ''AZURE_OPENAI_EMBEDDING_CREDENTIAL''"
    using assms(3) by simp_all
  then show ?thesis
    using assms(1,2)
    by (simp add: module_init_def raising_def environ_get_def split: option.splits)
qed

lemma sample_run_complete:
  "sample_indexer_workflow sample_sdk sample_globals (fresh 10) =
     (Inr (),
      \<lparr> remote = 5,
        calls =
          [\<lparr> via = new_client sample_globals,
             request = Create_skillset (skillset_payload sample_globals),
             outcome = Returned \<rparr>,
           \<lparr> via = new_client sample_globals,
             request = Create_data_source_connection (data_source_payload sample_globals),
             outcome = Returned \<rparr>,
           \<lparr> via = new_client sample_globals,
             request = Create_indexer (indexer_payload ''openairagaudio'' ''testtskillset''),
             outcome = Returned \<rparr>,
           \<lparr> via = new_client sample_globals,
             request = Get_indexer ''hotel-data-indexer'',
             outcome = Returned \<rparr>,
           \<lparr> via = new_client sample_globals,
             request = Run_indexer ''hotel-data-indexer'',
             outcome = Returned \<rparr>],
        console =
          [Text ''Skillset is created'',
           Text ''Data source is created'',
           Repr (indexer_payload ''openairagaudio'' ''testtskillset'')] \<rparr>)"
  by (simp add: run_defs sample_sdk_def accept_def skillset_payload_def data_source_payload_def
      indexer_payload_def)

lemma sample_run_rejected:
  "sample_indexer_workflow sample_sdk sample_globals (fresh 2) =
     (Inl (HttpResponseError ''rejected''),
      \<lparr> remote = 0,
        calls =
          [\<lparr> via = new_client sample_globals,
             request = Create_skillset (skillset_payload sample_globals),
             outcome = Returned \<rparr>,
           \<lparr> via = new_client sample_globals,
             request = Create_data_source_connection (data_source_payload sample_globals),
             outcome = Returned \<rparr>,
           \<lparr> via = new_client sample_globals,
             request = Create_indexer (indexer_payload ''openairagaudio'' ''testtskillset''),
             outcome = Raised (HttpResponseError ''rejected'') \<rparr>],
        console =
          [Text ''Skillset is created'',
           Text ''Data source is created''] \<rparr>)"
  by (simp add: run_defs sample_sdk_def accept_def skillset_payload_def data_source_payload_def
      indexer_payload_def)



section \<open>The claims\<close>

text \<open>
  C1. The claim: the embedding skill takes its resource URI from AZURE_OPENAI_ENDPOINT, its
  deployment id from AZURE_OPENAI_EMBEDDING_DEPLOYMENT, its model name from
  AZURE_OPENAI_EMBEDDING_MODEL and its API key from AZURE_OPENAI_EMBEDDING_CREDENTIAL.
  Line 151 passes \<open>AZURE_OPENAI_EMBEDDING_ENDPOINT\<close> as \<open>deployment_id\<close>. Under the sample
  environment, where the endpoint and the deployment variables differ, the skillset that
  \<open>_create_skillset\<close> sends holds one embedding skill, and its deployment id is the value
  of AZURE_OPENAI_ENDPOINT, not the value of AZURE_OPENAI_EMBEDDING_DEPLOYMENT.
\<close>

theorem embedding_skill_deployment_id_at_sample:
  "module_init sample_environ = Inr sample_globals \<and>
   sample_environ ''AZURE_OPENAI_ENDPOINT'' = Some ''https://openai.example'' \<and>
   sample_environ ''AZURE_OPENAI_EMBEDDING_DEPLOYMENT'' = Some ''embedding-deployment'' \<and>
   map request (calls (snd (priv_create_skillset sample_sdk sample_globals (fresh 10)))) =
     [Create_skillset (skillset_payload sample_globals)] \<and>
   map deployment_id (embedding_skills (skills (skillset_payload sample_globals))) =
     [''https://openai.example''] \<and>
   map deployment_id (embedding_skills (skills (skillset_payload sample_globals))) \<noteq>
     [''embedding-deployment'']"
proof -
  have "sample_environ ''AZURE_OPENAI_ENDPOINT'' = Some ''https://openai.example''"
    and "sample_environ ''AZURE_OPENAI_EMBEDDING_DEPLOYMENT'' = Some ''embedding-deployment''"
    by (simp_all add: sample_environ_def)
  moreover have
    "map request (calls (snd (priv_create_skillset sample_sdk sample_globals (fresh 10)))) =
       [Create_skillset (skillset_payload sample_globals)]"
    by (simp add: priv_create_skillset_def invoke_def fresh_def Let_def split: prod.splits)
  moreover have
    "map deployment_id (embedding_skills (skills (skillset_payload sample_globals))) =
       [''https://openai.example'']"
    by (simp add: skillset_payload_def sample_globals_def)
  ultimately show ?thesis
    using init_sample by simp
qed

text \<open>
  C2. The skillset that \<open>_create_skillset\<close> sends has exactly two skills, in this order:
  a split skill (mode "pages", maximum page length 2000, overlap 500, input source
  /document/content, output textItems with target name "pages"), then an embedding skill
  with context /document/pages/* whose output has target name "text_vector". It has one
  index-projection selector, with parent key field parent_id, mapping chunk, text_vector
  and title (from /document/metadata_storage_name), and its projection mode is
  SKIP_INDEXING_PARENT_DOCUMENTS. This holds for every SDK, every binding of the module
  globals and every state of the service.
\<close>

theorem skillset_shape:
  "map request (calls (snd (priv_create_skillset k g (fresh s)))) =
     [Create_skillset (skillset_payload g)] \<and>
   (\<exists>sp em.
      skills (skillset_payload g) = [SplitSkill sp, AzureOpenAIEmbeddingSkill em] \<and>
      text_split_mode sp = ''pages'' \<and>
      maximum_page_length sp = 2000 \<and>
      page_overlap_length sp = 500 \<and>
      map in_source (split_inputs sp) = [''/document/content''] \<and>
      split_outputs sp = [\<lparr> out_name = ''textItems'', out_target_name = ''pages'' \<rparr>] \<and>
      emb_context em = ''/document/pages/*'' \<and>
      map out_target_name (emb_outputs em) = [''text_vector'']) \<and>
   (\<exists>sel.
      selectors (skillset_index_projections (skillset_payload g)) = [sel] \<and>
      parent_key_field_name sel = ''parent_id'' \<and>
      mappings sel =
        [\<lparr> in_name = ''chunk'', in_source = ''/document/pages/*'' \<rparr>,
         \<lparr> in_name = ''text_vector'', in_source = ''/document/pages/*/text_vector'' \<rparr>,
         \<lparr> in_name = ''title'', in_source = ''/document/metadata_storage_name'' \<rparr>]) \<and>
   projection_mode (proj_parameters (skillset_index_projections (skillset_payload g))) =
     SKIP_INDEXING_PARENT_DOCUMENTS"
proof -
  have "map request (calls (snd (priv_create_skillset k g (fresh s)))) =
          [Create_skillset (skillset_payload g)]"
    by (simp add: priv_create_skillset_def invoke_def fresh_def Let_def split: prod.splits)
  then show ?thesis
    by (simp add: skillset_payload_def)
qed

text \<open>
  C3. In every run of \<open>sample_indexer_workflow\<close>, started with an empty log: if the call at
  position \<open>i\<close> of the log is create_indexer, then a create_skillset call and a
  create_data_source_connection call stand before position \<open>i\<close> and both returned; if it
  is run_indexer, then moreover a create_indexer call stands before it and returned.
\<close>

theorem indexer_created_and_run_in_dependency_order:
  assumes "sample_indexer_workflow k g (fresh s) = (r, w)"
    and "i < length (calls w)"
  shows "(operation_of (request (calls w ! i)) = CREATE_INDEXER \<longrightarrow>
            completed_before CREATE_SKILLSET i (calls w) \<and>
            completed_before CREATE_DATA_SOURCE_CONNECTION i (calls w)) \<and>
         (operation_of (request (calls w ! i)) = RUN_INDEXER \<longrightarrow>
            completed_before CREATE_INDEXER i (calls w) \<and>
            completed_before CREATE_SKILLSET i (calls w) \<and>
            completed_before CREATE_DATA_SOURCE_CONNECTION i (calls w))"
  using assms
  by (auto simp: run_defs completed_before_def returned_def nth_Cons' take_Cons'
      split: prod.splits sum.splits if_splits)

text \<open>
  In the run against the sample service that accepts ten calls, the call at position 4 is
  run_indexer, and the three creation calls returned before it.
\<close>

theorem indexer_created_and_run_in_dependency_order_witness:
  "operation_of (request (calls (snd (sample_indexer_workflow sample_sdk sample_globals
      (fresh 10))) ! 4)) = RUN_INDEXER \<and>
   completed_before CREATE_INDEXER 4
     (calls (snd (sample_indexer_workflow sample_sdk sample_globals (fresh 10)))) \<and>
   completed_before CREATE_SKILLSET 4
     (calls (snd (sample_indexer_workflow sample_sdk sample_globals (fresh 10)))) \<and>
   completed_before CREATE_DATA_SOURCE_CONNECTION 4
     (calls (snd (sample_indexer_workflow sample_sdk sample_globals (fresh 10))))"
proof -
  let ?run = "sample_indexer_workflow sample_sdk sample_globals (fresh 10)"
  have run: "?run = (fst ?run, snd ?run)" by simp
  have len: "4 < length (calls (snd ?run))" by (simp add: sample_run_complete)
  have op: "operation_of (request (calls (snd ?run) ! 4)) = RUN_INDEXER"
    by (simp add: sample_run_complete)
  from indexer_created_and_run_in_dependency_order [OF run len] op show ?thesis by blast
qed

text \<open>
  C4. The claim: the index built by \<open>_create_index\<close> has the name "hotel-index", an ordered
  list of five field definitions and a CORS policy (all origins, max age 60), and the
  value passed as the index's fields is that list. The name, the five definitions and the
  CORS policy are as claimed, but the value bound to \<open>fields\<close> and passed to
  \<open>SearchIndex\<close> is a tuple with one member, the list; it is not the list.
\<close>

theorem index_fields_value_is_a_tuple:
  "map request (calls (snd (priv_create_index k g (fresh s)))) = [Create_index index_payload] \<and>
   index_name index_payload = ''hotel-index'' \<and>
   index_cors_options index_payload = \<lparr> allowed_origins = [''*''], max_age_in_seconds = 60 \<rparr> \<and>
   length index_field_list = 5 \<and>
   index_fields index_payload = Py_tuple [Py_list index_field_list] \<and>
   index_fields index_payload \<noteq> Py_list index_field_list"
  by (simp add: priv_create_index_def invoke_def fresh_def Let_def index_payload_def
      index_field_list_def split: prod.splits)




text \<open>
  C6. The claim: the workflow performs the datasource definition before the skillset
  definition, and the skillset definition before the indexer definition. In the run
  under the sample environment against the sample service that accepts ten calls, this
  fails: no create_data_source_connection call stands before a create_skillset call.
\<close>

theorem datasource_before_skillset_counterexample:
  "\<not> (precedes CREATE_DATA_SOURCE_CONNECTION CREATE_SKILLSET
          (operations (snd (script sample_environ sample_sdk 10))) \<and>
        precedes CREATE_SKILLSET CREATE_INDEXER
          (operations (snd (script sample_environ sample_sdk 10))))"
  by (simp add: script_def init_sample sample_run_complete operations_def)

text \<open>
  C6, amended. In every run of the script the skillset definition comes first: no
  create_data_source_connection call stands before a create_skillset call and no
  create_indexer call stands before a create_data_source_connection call; when the
  datasource creation call is issued, the skillset creation call stands before it; when
  the indexer creation call is issued, the datasource creation call stands before it; and
  a run that ends without an exception issues create_skillset,
  create_data_source_connection, create_indexer, get_indexer, run_indexer, in this order.
\<close>

theorem skillset_then_datasource_then_indexer:
  "\<not> precedes CREATE_DATA_SOURCE_CONNECTION CREATE_SKILLSET (operations (snd (script env k s))) \<and>
   \<not> precedes CREATE_INDEXER CREATE_DATA_SOURCE_CONNECTION (operations (snd (script env k s))) \<and>
   (CREATE_DATA_SOURCE_CONNECTION \<in> set (operations (snd (script env k s))) \<longrightarrow>
      precedes CREATE_SKILLSET CREATE_DATA_SOURCE_CONNECTION (operations (snd (script env k s)))) \<and>
   (CREATE_INDEXER \<in> set (operations (snd (script env k s))) \<longrightarrow>
      precedes CREATE_DATA_SOURCE_CONNECTION CREATE_INDEXER (operations (snd (script env k s)))) \<and>
   (fst (script env k s) = Inr () \<longrightarrow> operations (snd (script env k s)) = call_order)"
proof (cases "module_init env")
  case (Inl e)
  then show ?thesis by (simp add: script_def operations_def fresh_def)
next
  case (Inr g)
  obtain r w where run: "sample_indexer_workflow k g (fresh s) = (r, w)"
    by (cases "sample_indexer_workflow k g (fresh s)")
  from Inr run have sc: "script env k s = (r, w)" by (simp add: script_def)
  have fin: "operations w = call_order" if "r = Inr ()"
  proof -
    from run that have "sample_indexer_workflow k g (fresh s) = (Inr (), w)" by simp
    then show ?thesis by (rule workflow_completed(1))
  qed
  from workflow_operations [OF run] show ?thesis
    unfolding sc using fin by (auto simp: call_order_def)
qed

text \<open>
  The run under the sample environment against the sample service that accepts ten calls
  issues the indexer creation call, after the datasource creation call, which comes after
  the skillset creation call.
\<close>

theorem skillset_then_datasource_then_indexer_witness:
  "CREATE_INDEXER \<in> set (operations (snd (script sample_environ sample_sdk 10))) \<and>
   precedes CREATE_SKILLSET CREATE_DATA_SOURCE_CONNECTION
     (operations (snd (script sample_environ sample_sdk 10))) \<and>
   precedes CREATE_DATA_SOURCE_CONNECTION CREATE_INDEXER
     (operations (snd (script sample_environ sample_sdk 10)))"
proof -
  have "operations (snd (script sample_environ sample_sdk 10)) = call_order"
    by (simp add: script_def init_sample sample_run_complete operations_def call_order_def)
  then have "CREATE_DATA_SOURCE_CONNECTION \<in> set (operations (snd (script sample_environ sample_sdk 10)))"
    and "CREATE_INDEXER \<in> set (operations (snd (script sample_environ sample_sdk 10)))"
    by (simp_all add: call_order_def)
  with skillset_then_datasource_then_indexer [of sample_environ sample_sdk 10]
  show ?thesis by blast
qed

text \<open>
  C7. In every run of the script in which some remote call \<open>c\<close> raised an error \<open>e\<close>: the
  script ends with \<open>e\<close> raised; \<open>c\<close> is the last call of the log, so no remote call was
  issued after it; every call before it returned; the operations of the log are an
  initial part of create_skillset, create_data_source_connection, create_indexer,
  get_indexer, run_indexer, so nothing that undoes a creation was issued; and no
  operation occurs twice in the log, so the failing call was not issued again.
\<close>

theorem remote_failure_ends_the_run:
  assumes "script env k s = (r, w)"
    and "c \<in> set (calls w)"
    and "outcome c = Raised e"
  shows "r = Inl e \<and>
         last (calls w) = c \<and>
         list_all returned (butlast (calls w)) \<and>
         operations w = take (length (calls w)) call_order \<and>
         distinct (operations w)"
proof (cases "module_init env")
  case (Inl x)
  with assms(1) have "calls w = []" by (auto simp: script_def fresh_def)
  with assms(2) show ?thesis by simp
next
  case (Inr g)
  with assms(1) have run: "sample_indexer_workflow k g (fresh s) = (r, w)"
    by (simp add: script_def)
  note shape = workflow_shape [OF run]
  from shape(2) have split: "calls w = butlast (calls w) @ [last (calls w)]" by simp
  from assms(3) have "\<not> returned c" by (simp add: returned_def)
  with shape(3) have "c \<notin> set (butlast (calls w))" by (auto simp: list_all_iff)
  with assms(2) split have lst: "last (calls w) = c"
    by (metis Un_iff empty_iff empty_set set_ConsD set_append)
  with shape(4) assms(3) have "r = Inl e" by (cases r) auto
  moreover have "distinct (operations w)"
    unfolding shape(1) by (rule distinct_take) (simp add: call_order_def)
  ultimately show ?thesis using lst shape(1,3) by simp
qed

text \<open>
  Against the sample service that accepts two calls, the third call, create_indexer, is
  rejected: the script ends with that error, after exactly three calls, the first two of
  which returned.
\<close>

theorem remote_failure_ends_the_run_witness:
  "fst (script sample_environ sample_sdk 2) = Inl (HttpResponseError ''rejected'') \<and>
   operations (snd (script sample_environ sample_sdk 2)) =
     [CREATE_SKILLSET, CREATE_DATA_SOURCE_CONNECTION, CREATE_INDEXER] \<and>
   list_all returned (butlast (calls (snd (script sample_environ sample_sdk 2))))"
proof -
  let ?run = "script sample_environ sample_sdk 2"
  let ?c = "\<lparr> via = new_client sample_globals,
              request = Create_indexer (indexer_payload ''openairagaudio'' ''testtskillset''),
              outcome = Raised (HttpResponseError ''rejected'') \<rparr>"
  have run: "?run = (fst ?run, snd ?run)" by simp
  have mem: "?c \<in> set (calls (snd ?run))"
    by (simp add: script_def init_sample sample_run_rejected)
  have out: "outcome ?c = Raised (HttpResponseError ''rejected'')" by simp
  have len: "length (calls (snd ?run)) = 3"
    by (simp add: script_def init_sample sample_run_rejected)
  from remote_failure_ends_the_run [OF run mem out] len show ?thesis
    by (simp add: call_order_def)
qed

text \<open>
  C8. If one of the seven variables read at module level is unset, the script ends with a
  \<open>KeyError\<close> naming one of the seven that is unset, the log of remote calls is empty and
  the state of the remote service is the initial one.
\<close>

theorem unset_variable_fails_before_any_call:
  assumes "v \<in> set required_variables" and "env v = None"
  shows "(\<exists>u. fst (script env k s) = Inl (KeyError u) \<and>
              u \<in> set required_variables \<and> env u = None) \<and>
         calls (snd (script env k s)) = [] \<and>
         remote (snd (script env k s)) = s"
proof -
  from module_init_unset [of v env, OF assms] obtain u where
    u: "module_init env = Inl (KeyError u)" "u \<in> set required_variables" "env u = None"
    by blast
  then show ?thesis by (auto simp: script_def fresh_def)
qed

text \<open>
  With AZURE_OPENAI_EMBEDDING_MODEL removed from the sample environment, the script ends
  with a \<open>KeyError\<close> and an empty log.
\<close>

theorem unset_variable_fails_before_any_call_witness:
  "(\<exists>u. fst (script (sample_environ (''AZURE_OPENAI_EMBEDDING_MODEL'' := None)) sample_sdk 10) =
          Inl (KeyError u)) \<and>
   calls (snd (script (sample_environ (''AZURE_OPENAI_EMBEDDING_MODEL'' := None)) sample_sdk 10)) = []"
proof -
  have v: "''AZURE_OPENAI_EMBEDDING_MODEL'' \<in> set required_variables"
    by (simp add: required_variables_def)
  have unset: "(sample_environ (''AZURE_OPENAI_EMBEDDING_MODEL'' := None))
                 ''AZURE_OPENAI_EMBEDDING_MODEL'' = None"
    by simp
  from unset_variable_fails_before_any_call
    [of "''AZURE_OPENAI_EMBEDDING_MODEL''"
        "sample_environ (''AZURE_OPENAI_EMBEDDING_MODEL'' := None)" sample_sdk 10, OF v unset]
  show ?thesis by blast
qed

text \<open>
  C9. The indexer built by the workflow, whatever names the service returned, has the
  target index name "gptkbindex", and the one projection selector of the skillset has the
  target index name "gptkbindex". In every run of the workflow, started with an empty
  log: the set of target index names declared by the requests sent is exactly that one
  name; exactly one skillset is sent for creation, and its selectors name "gptkbindex";
  every indexer sent for creation has the target "gptkbindex"; and when a create_indexer
  call is issued, in particular when the run ends without an exception, exactly one
  indexer is sent for creation, with the target "gptkbindex".
\<close>

theorem indexer_and_projection_share_target_index:
  "indexer_target_index_name (indexer_payload d n) = ''gptkbindex'' \<and>
   map sel_target_index_name (selectors (skillset_index_projections (skillset_payload g))) =
     [''gptkbindex''] \<and>
   set (concat (map (\<lambda>c. declared_targets (request c))
     (calls (snd (sample_indexer_workflow k g (fresh s)))))) = {''gptkbindex''} \<and>
   map (\<lambda>sk. map sel_target_index_name (selectors (skillset_index_projections sk)))
     (sent_skillsets (calls (snd (sample_indexer_workflow k g (fresh s))))) =
     [[''gptkbindex'']] \<and>
   list_all (\<lambda>ix. indexer_target_index_name ix = ''gptkbindex'')
     (sent_indexers (calls (snd (sample_indexer_workflow k g (fresh s))))) \<and>
   (CREATE_INDEXER \<in> set (operations (snd (sample_indexer_workflow k g (fresh s)))) \<longrightarrow>
      map indexer_target_index_name
        (sent_indexers (calls (snd (sample_indexer_workflow k g (fresh s))))) =
        [''gptkbindex'']) \<and>
   (fst (sample_indexer_workflow k g (fresh s)) = Inr () \<longrightarrow>
      map indexer_target_index_name
        (sent_indexers (calls (snd (sample_indexer_workflow k g (fresh s))))) =
        [''gptkbindex''])"
proof -
  obtain r w where run: "sample_indexer_workflow k g (fresh s) = (r, w)"
    by (cases "sample_indexer_workflow k g (fresh s)")
  have a: "indexer_target_index_name (indexer_payload d' n') = ''gptkbindex''" for d' n'
    by (simp add: indexer_payload_def)
  have b: "map sel_target_index_name
             (selectors (skillset_index_projections (skillset_payload g))) = [''gptkbindex'']"
    by (simp add: skillset_payload_def)
  have c: "set (concat (map (\<lambda>c. declared_targets (request c)) (calls w))) = {''gptkbindex''}"
    using run
    by (auto simp: run_defs a b split: prod.splits sum.splits)
  have d: "map (\<lambda>sk. map sel_target_index_name (selectors (skillset_index_projections sk)))
             (sent_skillsets (calls w)) = [[''gptkbindex'']]"
    using run
    by (auto simp: run_defs sent_skillsets_def b split: prod.splits sum.splits)
  have e: "list_all (\<lambda>ix. indexer_target_index_name ix = ''gptkbindex'')
             (sent_indexers (calls w))"
    using run
    by (auto simp: run_defs sent_indexers_def a split: prod.splits sum.splits)
  have f: "map indexer_target_index_name (sent_indexers (calls w)) = [''gptkbindex'']"
    if "CREATE_INDEXER \<in> set (operations w)"
    using run that
    by (auto simp: run_defs sent_indexers_def operations_def a split: prod.splits sum.splits)
  have h: "map indexer_target_index_name (sent_indexers (calls w)) = [''gptkbindex'']"
    if "r = Inr ()"
    using run that
    by (auto simp: run_defs sent_indexers_def a split: prod.splits sum.splits)
  from a b c d e f h run show ?thesis by simp
qed

text \<open>
  The run against the sample service that accepts ten calls ends without an exception;
  it sends one indexer and one skillset for creation, both naming "gptkbindex".
\<close>

theorem indexer_and_projection_share_target_index_witness:
  "fst (sample_indexer_workflow sample_sdk sample_globals (fresh 10)) = Inr () \<and>
   map indexer_target_index_name
     (sent_indexers (calls (snd (sample_indexer_workflow sample_sdk sample_globals (fresh 10))))) =
     [''gptkbindex''] \<and>
   map (\<lambda>sk. map sel_target_index_name (selectors (skillset_index_projections sk)))
     (sent_skillsets (calls (snd (sample_indexer_workflow sample_sdk sample_globals (fresh 10))))) =
     [[''gptkbindex'']]"
proof -
  have ok: "fst (sample_indexer_workflow sample_sdk sample_globals (fresh 10)) = Inr ()"
    by (simp add: sample_run_complete)
  from indexer_and_projection_share_target_index
    [where d = "''openairagaudio''" and n = "''testtskillset''" and g = sample_globals
       and k = sample_sdk and s = 10] ok
  show ?thesis by blast
qed

text \<open>
  C10. For two environments in which AZURE_OPENAI_EMBEDDING_DEPLOYMENT is set and which
  agree on every other variable, the two runs of the script are the same, for every SDK
  and initial state of the service: the same result, the same log of remote calls with
  the same payloads, the same console and the same final state of the service. When both
  module initialisations succeed, the data source payload, the skillset payload and the
  client built from the two bindings of the globals are equal.
\<close>

theorem deployment_variable_never_reaches_a_payload:
  assumes "env1 ''AZURE_OPENAI_EMBEDDING_DEPLOYMENT'' \<noteq> None"
    and "env2 ''AZURE_OPENAI_EMBEDDING_DEPLOYMENT'' \<noteq> None"
    and "\<forall>v. v \<noteq> ''AZURE_OPENAI_EMBEDDING_DEPLOYMENT'' \<longrightarrow> env1 v = env2 v"
  shows "script env1 k s = script env2 k s \<and>
         (\<forall>g1 g2. module_init env1 = Inr g1 \<and> module_init env2 = Inr g2 \<longrightarrow>
            data_source_payload g1 = data_source_payload g2 \<and>
            skillset_payload g1 = skillset_payload g2 \<and>
            new_client g1 = new_client g2)"
proof -
  from assms(1,2) obtain a b where
    ab: "env1 ''AZURE_OPENAI_EMBEDDING_DEPLOYMENT'' = Some a"
        "env2 ''AZURE_OPENAI_EMBEDDING_DEPLOYMENT'' = Some b"
    by auto
  note init = module_init_deployment [OF ab assms(3)]
  have "script env1 k s = script env2 k s"
    by (simp add: script_def init workflow_ignores_deployment split: sum.splits)
  moreover have "data_source_payload g1 = data_source_payload g2 \<and>
      skillset_payload g1 = skillset_payload g2 \<and> new_client g1 = new_client g2"
    if "module_init env1 = Inr g1" "module_init env2 = Inr g2" for g1 g2
    using that init
    by (auto simp: data_source_payload_def skillset_payload_def new_client_def)
  ultimately show ?thesis by blast
qed

text \<open>
  Changing AZURE_OPENAI_EMBEDDING_DEPLOYMENT in the sample environment leaves the run
  against the sample service the same.
\<close>

theorem deployment_variable_never_reaches_a_payload_witness:
  "script sample_environ sample_sdk 10 =
   script (sample_environ (''AZURE_OPENAI_EMBEDDING_DEPLOYMENT'' \<mapsto> ''another-deployment''))
     sample_sdk 10"
proof -
  have a: "sample_environ ''AZURE_OPENAI_EMBEDDING_DEPLOYMENT'' \<noteq> None"
    by (simp add: sample_environ_def)
  have b: "(sample_environ (''AZURE_OPENAI_EMBEDDING_DEPLOYMENT'' \<mapsto> ''another-deployment''))
             ''AZURE_OPENAI_EMBEDDING_DEPLOYMENT'' \<noteq> None"
    by simp
  have c: "\<forall>v. v \<noteq> ''AZURE_OPENAI_EMBEDDING_DEPLOYMENT'' \<longrightarrow>
             sample_environ v =
             (sample_environ (''AZURE_OPENAI_EMBEDDING_DEPLOYMENT'' \<mapsto> ''another-deployment'')) v"
    by simp
  from deployment_variable_never_reaches_a_payload [OF a b c, of sample_sdk 10]
  show ?thesis by blast
qed

end
